theory Spec2Isabelle
  imports Main "HOL-Library.Sublist"
begin

section \<open>Python values\<close>

text \<open>
  A Python \<open>str\<close> is a sequence of Unicode code points. The bot's texts are Russian, so a
  \<open>str\<close> is modelled as the list of its code points; \<open>ascii\<close> embeds a literal
  made of ASCII characters. The Russian constants of \<open>homework.py\<close> are written out as code
  points further down (1040-1103 are the Cyrillic letters, 1105 is the letter io).
\<close>

type_synonym pystr = "nat list"

definition ascii :: "string \<Rightarrow> pystr" where
  "ascii s = map of_char s"

text \<open>
  What \<open>response.json()\<close> can produce. A float is identified by its \<open>repr\<close> text
  (which determines a float); the program never computes with one. A \<open>dict\<close> keeps
  its items in insertion order; lookup takes the first item with the key.
\<close>

datatype json =
    JNull
  | JBool bool
  | JInt int
  | JFloat pystr
  | JStr pystr
  | JList "json list"
  | JDict "(pystr \<times> json) list"

text \<open>
  Exceptions. The first three are raised by \<open>homework.py\<close> itself, the next two come out
  of library calls (the argument is the library's \<open>str(e)\<close>), the rest are raised by the
  interpreter: reading an unbound local variable, \<open>x in v\<close> on a value without membership
  test, a missing method, a \<open>dict\<close> lookup with an unhashable key, a subscript that the
  value does not support.
\<close>

datatype exn =
    PyException pystr
  | TypeError pystr
  | KeyError pystr
  | RequestException pystr
  | LibraryError pystr
  | UnboundLocalError pystr
  | NotContainer json
  | NoAttribute json pystr
  | Unhashable json
  | BadSubscript json

text \<open>
  Texts that the interpreter produces and the source only interpolates: \<open>str(v)\<close> of a
  value that is not a \<open>str\<close>, \<open>repr(s)\<close> of a \<open>str\<close> (which is what \<open>str\<close> of a
  \<open>KeyError\<close> gives), and the message of an exception the interpreter raises. They depend
  on the interpreter's version and on the Unicode database, so the model takes them as a
  parameter; every theorem below holds for every runtime.
\<close>

record runtime =
  str_json :: "json \<Rightarrow> pystr"
  repr_str :: "pystr \<Rightarrow> pystr"
  builtin_message :: "exn \<Rightarrow> pystr"

definition py_str :: "runtime \<Rightarrow> json \<Rightarrow> pystr" where
  "py_str R v = (case v of JStr s \<Rightarrow> s | _ \<Rightarrow> str_json R v)"

definition exn_str :: "runtime \<Rightarrow> exn \<Rightarrow> pystr" where
  "exn_str R e =
     (case e of
        PyException m \<Rightarrow> m
      | TypeError m \<Rightarrow> m
      | KeyError k \<Rightarrow> repr_str R k
      | RequestException m \<Rightarrow> m
      | LibraryError m \<Rightarrow> m
      | _ \<Rightarrow> builtin_message R e)"

definition is_RequestException :: "exn \<Rightarrow> bool" where
  "is_RequestException e = (case e of RequestException _ \<Rightarrow> True | _ \<Rightarrow> False)"

text \<open>\<open>type(v)\<close> as an f-string prints it.\<close>

definition type_name :: "json \<Rightarrow> pystr" where
  "type_name v =
     (case v of
        JNull \<Rightarrow> ascii ''NoneType''
      | JBool _ \<Rightarrow> ascii ''bool''
      | JInt _ \<Rightarrow> ascii ''int''
      | JFloat _ \<Rightarrow> ascii ''float''
      | JStr _ \<Rightarrow> ascii ''str''
      | JList _ \<Rightarrow> ascii ''list''
      | JDict _ \<Rightarrow> ascii ''dict'')"

definition class_text :: "json \<Rightarrow> pystr" where
  "class_text v = ascii ''<class '' @ [39] @ type_name v @ [39] @ ascii ''>''"

text \<open>\<open>key in v\<close> for a \<open>str\<close> key: a key of a dict, an element of a list, a substring
  of a str, a \<open>TypeError\<close> on anything else.\<close>

fun substring :: "pystr \<Rightarrow> pystr \<Rightarrow> bool" where
  "substring k [] = (k = [])"
| "substring k (c # cs) = (prefix k (c # cs) \<or> substring k cs)"

definition py_contains :: "pystr \<Rightarrow> json \<Rightarrow> exn + bool" where
  "py_contains key v =
     (case v of
        JDict kvs \<Rightarrow> Inr (map_of kvs key \<noteq> None)
      | JList xs \<Rightarrow> Inr (JStr key \<in> set xs)
      | JStr s \<Rightarrow> Inr (substring key s)
      | _ \<Rightarrow> Inl (NotContainer v))"

text \<open>\<open>v.get(key)\<close> and \<open>v[key]\<close> for a \<open>str\<close> key.\<close>

definition py_get :: "json \<Rightarrow> pystr \<Rightarrow> exn + json" where
  "py_get v key =
     (case v of
        JDict kvs \<Rightarrow> Inr (case map_of kvs key of None \<Rightarrow> JNull | Some x \<Rightarrow> x)
      | _ \<Rightarrow> Inl (NoAttribute v (ascii ''get'')))"

definition py_getitem :: "json \<Rightarrow> pystr \<Rightarrow> exn + json" where
  "py_getitem v key =
     (case v of
        JDict kvs \<Rightarrow> (case map_of kvs key of None \<Rightarrow> Inl (KeyError key) | Some x \<Rightarrow> Inr x)
      | _ \<Rightarrow> Inl (BadSubscript v))"

text \<open>Truth value of a Python value, as \<open>if v:\<close> and \<open>not v\<close> take it.\<close>

definition truthy :: "json \<Rightarrow> bool" where
  "truthy v =
     (case v of
        JNull \<Rightarrow> False
      | JBool b \<Rightarrow> b
      | JInt i \<Rightarrow> i \<noteq> 0
      | JFloat r \<Rightarrow> r \<noteq> ascii ''0.0'' \<and> r \<noteq> ascii ''-0.0''
      | JStr s \<Rightarrow> s \<noteq> []
      | JList xs \<Rightarrow> xs \<noteq> []
      | JDict kvs \<Rightarrow> kvs \<noteq> [])"

section \<open>Constants of the module\<close>

definition RETRY_PERIOD :: nat where
  "RETRY_PERIOD = 600"

definition verdict_approved :: pystr where
  "verdict_approved =
     [1056, 1072, 1073, 1086, 1090, 1072, 32, 1087, 1088, 1086, 1074, 1077, 1088, 1077, 1085,
      1072, 58, 32, 1088, 1077, 1074, 1100, 1102, 1077, 1088, 1091, 32, 1074, 1089, 1105, 32,
      1087, 1086, 1085, 1088, 1072, 1074, 1080, 1083, 1086, 1089, 1100, 46, 32, 1059, 1088,
      1072, 33]"

definition verdict_reviewing :: pystr where
  "verdict_reviewing =
     [1056, 1072, 1073, 1086, 1090, 1072, 32, 1074, 1079, 1103, 1090, 1072, 32, 1085, 1072,
      32, 1087, 1088, 1086, 1074, 1077, 1088, 1082, 1091, 32, 1088, 1077, 1074, 1100, 1102,
      1077, 1088, 1086, 1084, 46]"

definition verdict_rejected :: pystr where
  "verdict_rejected =
     [1056, 1072, 1073, 1086, 1090, 1072, 32, 1087, 1088, 1086, 1074, 1077, 1088, 1077, 1085,
      1072, 58, 32, 1091, 32, 1088, 1077, 1074, 1100, 1102, 1077, 1088, 1072, 32, 1077, 1089,
      1090, 1100, 32, 1079, 1072, 1084, 1077, 1095, 1072, 1085, 1080, 1103, 46]"

definition msg_missing_variable :: pystr where
  "msg_missing_variable =
     [1054, 1090, 1089, 1091, 1090, 1089, 1090, 1074, 1091, 1077, 1090, 32, 1086, 1073, 1103,
      1079, 1072, 1090, 1077, 1083, 1100, 1085, 1072, 1103, 32, 1087, 1077, 1088, 1077, 1084,
      1077, 1085, 1085, 1072, 1103, 32]"

definition msg_tokens_ok :: pystr where
  "msg_tokens_ok =
     [1055, 1088, 1086, 1074, 1077, 1088, 1082, 1072, 32, 1082, 1083, 1102, 1095, 1077, 1081,
      32, 1079, 1072, 1082, 1086, 1085, 1095, 1080, 1083, 1072, 1089, 1100, 32, 1091, 1089,
      1087, 1077, 1096, 1085, 1086]"

definition msg_send_failed :: pystr where
  "msg_send_failed =
     [1057, 1073, 1086, 1081, 32, 1087, 1088, 1080, 32, 1086, 1090, 1087, 1088, 1072, 1074,
      1082, 1077, 32, 1089, 1086, 1086, 1073, 1097, 1077, 1085, 1080, 1103]"

definition msg_sent :: pystr where
  "msg_sent =
     [1057, 1086, 1086, 1073, 1097, 1077, 1085, 1080, 1077, 32, 1086, 1090, 1087, 1088, 1072,
      1074, 1083, 1077, 1085, 1086]"

definition msg_url_failure :: pystr where
  "msg_url_failure =
     [1057, 1073, 1086, 1081, 32, 1087, 1088, 1080, 32, 1086, 1073, 1088, 1072, 1097, 1077,
      1085, 1080, 1080, 32, 1082, 32, 85, 82, 76, 32]"

definition msg_response_received :: pystr where
  "msg_response_received =
     [1054, 1090, 1074, 1077, 1090, 32, 1086, 1090, 32, 1089, 1077, 1088, 1074, 1077, 1088,
      1072, 32, 1087, 1086, 1083, 1091, 1095, 1077, 1085]"

definition msg_no_form_date :: pystr where
  "msg_no_form_date =
     [1054, 1090, 1089, 1091, 1090, 1089, 1090, 1074, 1091, 1077, 1090, 32, 1087, 1072, 1088,
      1072, 1084, 1077, 1090, 1088, 32, 96, 102, 111, 114, 109, 95, 100, 97, 116, 101, 96]"

definition msg_request_error :: pystr where
  "msg_request_error =
     [1054, 1096, 1080, 1073, 1082, 1072, 32, 1086, 1090, 1087, 1088, 1072, 1074, 1082, 1080,
      32, 1079, 1072, 1087, 1088, 1086, 1089, 1072, 46, 32]"

definition msg_error_occurred :: pystr where
  "msg_error_occurred =
     [1055, 1088, 1086, 1080, 1079, 1086, 1096, 1083, 1072, 32, 1086, 1096, 1080, 1073, 1082,
      1072, 58, 32]"

definition msg_wrong_type :: pystr where
  "msg_wrong_type =
     [1053, 1077, 1087, 1088, 1072, 1074, 1080, 1083, 1100, 1085, 1099, 1081, 32, 1090, 1080,
      1087, 32, 1076, 1072, 1085, 1085, 1099, 1093, 32, 1086, 1090, 1074, 1077, 1090, 1072,
      32, 1089, 1077, 1088, 1074, 1077, 1088, 1072, 58, 32]"

definition msg_no_homeworks_key :: pystr where
  "msg_no_homeworks_key =
     [1054, 1090, 1074, 1077, 1090, 32, 1089, 1077, 1088, 1074, 1077, 1088, 1072, 32, 1085,
      1077, 32, 1089, 1086, 1076, 1077, 1088, 1078, 1080, 1090, 32, 1082, 1083, 1102, 1095,
      32, 34, 104, 111, 109, 101, 119, 111, 114, 107, 115, 34, 58, 32]"

definition msg_not_a_list :: pystr where
  "msg_not_a_list =
     [1042, 32, 1086, 1090, 1074, 1077, 1090, 1077, 32, 65, 80, 73, 32, 1076, 1086, 1084,
      1072, 1096, 1082, 1080, 32, 1087, 1086, 1076, 32, 1082, 1083, 1102, 1095, 1086, 1084,
      32, 96, 104, 111, 109, 101, 119, 111, 114, 107, 115, 96, 32, 1076, 1072, 1085, 1085,
      1099, 1077, 32, 1087, 1088, 1080, 1093, 1086, 1076, 1103, 1090, 32, 1085, 1077, 32,
      1074, 32, 1074, 1080, 1076, 1077, 32, 1089, 1087, 1080, 1089, 1082, 1072, 46]"

definition msg_no_homework_name :: pystr where
  "msg_no_homework_name =
     [1042, 32, 1086, 1090, 1074, 1077, 1090, 1077, 32, 65, 80, 73, 32, 1076, 1086, 1084,
      1072, 1096, 1082, 1080, 32, 1085, 1077, 1090, 32, 1082, 1083, 1102, 1095, 1072, 32, 96,
      104, 111, 109, 101, 119, 111, 114, 107, 95, 110, 97, 109, 101, 96, 46]"

definition msg_no_status :: pystr where
  "msg_no_status =
     [1042, 32, 1086, 1090, 1074, 1077, 1090, 1077, 32, 65, 80, 73, 32, 1076, 1086, 1084,
      1072, 1096, 1082, 1080, 32, 1085, 1077, 1090, 32, 1082, 1083, 1102, 1095, 1072, 32, 96,
      115, 116, 97, 116, 117, 115, 96, 46]"

definition msg_undocumented_status :: pystr where
  "msg_undocumented_status =
     [65, 80, 73, 32, 1076, 1086, 1084, 1072, 1096, 1082, 1080, 32, 1074, 1086, 1079, 1074,
      1088, 1072, 1097, 1072, 1077, 1090, 32, 1085, 1077, 1076, 1086, 1082, 1091, 1084, 1077,
      1085, 1090, 1080, 1088, 1086, 1074, 1072, 1085, 1085, 1099, 1081, 32, 1089, 1090, 1072,
      1090, 1091, 1089, 32, 1076, 1086, 1084, 1072, 1096, 1085, 1077, 1081, 32, 1088, 1072,
      1073, 1086, 1090, 1099, 46]"

definition msg_status_changed :: pystr where
  "msg_status_changed =
     [1048, 1079, 1084, 1077, 1085, 1080, 1083, 1089, 1103, 32, 1089, 1090, 1072, 1090, 1091,
      1089, 32, 1087, 1088, 1086, 1074, 1077, 1088, 1082, 1080, 32, 1088, 1072, 1073, 1086,
      1090, 1099, 32, 34]"

definition msg_failure :: pystr where
  "msg_failure =
     [1057, 1073, 1086, 1081, 32, 1074, 32, 1088, 1072, 1073, 1086, 1090, 1077, 32, 1087,
      1088, 1086, 1075, 1088, 1072, 1084, 1084, 1099, 58, 32]"

definition msg_missing_variables :: pystr where
  "msg_missing_variables =
     [1054, 1090, 1089, 1091, 1090, 1089, 1090, 1074, 1091, 1102, 1090, 32, 1086, 1073, 1103,
      1079, 1072, 1090, 1077, 1083, 1100, 1085, 1099, 1077, 32, 1087, 1077, 1088, 1077, 1084,
      1077, 1085, 1085, 1099, 1077]"

text \<open>\<open>HOMEWORK_VERDICTS\<close>, and \<open>HOMEWORK_VERDICTS.get(k)\<close>: the keys are \<open>str\<close>, so a
  hashable key of another type finds nothing, and a list or a dict cannot be hashed.\<close>

definition HOMEWORK_VERDICTS :: "(pystr \<times> pystr) list" where
  "HOMEWORK_VERDICTS =
     [(ascii ''approved'', verdict_approved),
      (ascii ''reviewing'', verdict_reviewing),
      (ascii ''rejected'', verdict_rejected)]"

definition hashable :: "json \<Rightarrow> bool" where
  "hashable v = (case v of JList _ \<Rightarrow> False | JDict _ \<Rightarrow> False | _ \<Rightarrow> True)"

definition verdicts_get :: "json \<Rightarrow> exn + pystr option" where
  "verdicts_get k =
     (if \<not> hashable k then Inl (Unhashable k)
      else Inr (case k of JStr s \<Rightarrow> map_of HOMEWORK_VERDICTS s | _ \<Rightarrow> None))"

section \<open>Effects\<close>

text \<open>
  Everything the program does to the outside is recorded, in order, as a trace of events:
  a call of \<open>logging\<close> (the call, whether or not a handler prints it), the GET request with
  the \<open>params\<close> it carries, a call of \<open>bot.send_message\<close> with its text (the chat is
  always \<open>TELEGRAM_CHAT_ID\<close>), and the sleep.
\<close>

datatype level = DEBUG | ERROR | CRITICAL

datatype event =
    Log level pystr
  | HttpGet json
  | TgSend pystr
  | Sleep nat

fun sends :: "event list \<Rightarrow> pystr list" where
  "sends [] = []"
| "sends (TgSend m # es) = m # sends es"
| "sends (e # es) = sends es"

text \<open>
  The outside world answers. A GET either raises or returns a response, whose \<open>json()\<close>
  either raises or returns the decoded body; the server may answer differently to different
  \<open>params\<close>, so the world of one cycle is a function of them. The \<open>k\<close>-th call of
  \<open>bot.send_message\<close> (counting from 0, over the whole run) returns normally when
  \<open>tg k\<close> holds and raises otherwise.
\<close>

record response =
  status_code :: int
  request_url :: pystr
  json_result :: "exn + json"

type_synonym http = "json \<Rightarrow> exn + response"

type_synonym telegram = "nat \<Rightarrow> bool"

section \<open>check_tokens\<close>

record config =
  PRACTICUM_TOKEN :: "pystr option"
  TELEGRAM_TOKEN :: "pystr option"
  TELEGRAM_CHAT_ID :: "pystr option"

text \<open>\<open>os.getenv\<close> gives \<open>None\<close> for an absent variable; \<open>None\<close> and the empty string
  are false.\<close>

definition env_truthy :: "pystr option \<Rightarrow> bool" where
  "env_truthy v = (case v of None \<Rightarrow> False | Some s \<Rightarrow> s \<noteq> [])"

text \<open>\<open>exit()\<close> raises \<open>SystemExit\<close>, which no handler of the program catches: the
  call does not return and the process ends.\<close>

datatype 'a completion = Returned 'a | Exited

definition check_tokens :: "config \<Rightarrow> event list \<times> json completion" where
  "check_tokens cfg =
     (let LST_NOT_NULL = [PRACTICUM_TOKEN cfg, TELEGRAM_TOKEN cfg, TELEGRAM_CHAT_ID cfg];
          LST_NOT_NULL_STRING =
            [ascii ''PRACTICUM_TOKEN'', ascii ''TELEGRAM_TOKEN'', ascii ''TELEGRAM_CHAT_ID'']
      in if \<not> list_all env_truthy LST_NOT_NULL
         then (map (\<lambda>i. Log CRITICAL (msg_missing_variable @ LST_NOT_NULL_STRING ! i))
                 (filter (\<lambda>i. \<not> env_truthy (LST_NOT_NULL ! i)) [0 ..< length LST_NOT_NULL]),
               Exited)
         else ([Log DEBUG msg_tokens_ok], Returned JNull))"

section \<open>send_message\<close>

definition send_message :: "telegram \<Rightarrow> pystr \<Rightarrow> event list \<Rightarrow> event list" where
  "send_message tg message tr =
     tr @ [TgSend message,
           if tg (length (sends tr)) then Log DEBUG msg_sent else Log ERROR msg_send_failed]"

section \<open>get_api_answer\<close>

text \<open>
  The \<open>try\<close> block, up to the point where it ends or raises: the events, the binding of
  the local \<open>response_data\<close> at that point (\<open>None\<close> while it is unbound) and the exception
  raised, if any.
\<close>

definition get_api_answer_try :: "http \<Rightarrow> json \<Rightarrow> event list \<times> json option \<times> exn option" where
  "get_api_answer_try http timestamp =
     (case http timestamp of
        Inl e \<Rightarrow> ([HttpGet timestamp], None, Some e)
      | Inr response \<Rightarrow>
          if status_code response \<noteq> 200
          then ([HttpGet timestamp], None,
                Some (PyException (msg_url_failure @ request_url response)))
          else
            (case json_result response of
               Inl e \<Rightarrow> ([HttpGet timestamp, Log DEBUG msg_response_received], None, Some e)
             | Inr response_data \<Rightarrow>
                 ([HttpGet timestamp, Log DEBUG msg_response_received], Some response_data,
                  (case py_contains (ascii ''form_date'') response_data of
                     Inl e \<Rightarrow> Some e
                   | Inr found \<Rightarrow>
                       if \<not> found then Some (PyException msg_no_form_date) else None))))"

text \<open>
  The two handlers log and fall through to \<open>return response_data\<close>, which reads the
  local variable: where the \<open>try\<close> block left it unbound, the read raises
  \<open>UnboundLocalError\<close>.
\<close>

definition get_api_answer :: "runtime \<Rightarrow> http \<Rightarrow> json \<Rightarrow> event list \<times> (exn + json)" where
  "get_api_answer R http timestamp =
     (case get_api_answer_try http timestamp of
        (evs, response_data, raised) \<Rightarrow>
          (evs @
           (case raised of
              None \<Rightarrow> []
            | Some e \<Rightarrow>
                if is_RequestException e
                then [Log ERROR (msg_request_error @ exn_str R e)]
                else [Log ERROR (msg_error_occurred @ exn_str R e)]),
           (case response_data of
              None \<Rightarrow> Inl (UnboundLocalError (ascii ''response_data''))
            | Some d \<Rightarrow> Inr d)))"

section \<open>check_response\<close>

definition is_dict :: "json \<Rightarrow> bool" where
  "is_dict v = (case v of JDict _ \<Rightarrow> True | _ \<Rightarrow> False)"

definition check_response :: "runtime \<Rightarrow> json \<Rightarrow> exn + json list" where
  "check_response R response =
     (case response of
        JDict kvs \<Rightarrow>
          (case map_of kvs (ascii ''homeworks'') of
             None \<Rightarrow> Inl (KeyError (msg_no_homeworks_key @ py_str R response))
           | Some (JList homework) \<Rightarrow> Inr homework
           | Some _ \<Rightarrow> Inl (TypeError msg_not_a_list))
      | _ \<Rightarrow> Inl (TypeError (msg_wrong_type @ class_text response)))"

section \<open>parse_status\<close>

definition parse_status :: "runtime \<Rightarrow> json \<Rightarrow> exn + pystr" where
  "parse_status R homework =
     (case py_contains (ascii ''homework_name'') homework of
        Inl e \<Rightarrow> Inl e
      | Inr has_name \<Rightarrow>
     if \<not> has_name then Inl (KeyError msg_no_homework_name) else
     (case py_contains (ascii ''status'') homework of
        Inl e \<Rightarrow> Inl e
      | Inr has_status \<Rightarrow>
     if \<not> has_status then Inl (KeyError msg_no_status) else
     (case py_get homework (ascii ''status'') of
        Inl e \<Rightarrow> Inl e
      | Inr status \<Rightarrow>
     (case verdicts_get status of
        Inl e \<Rightarrow> Inl e
      | Inr None \<Rightarrow> Inl (KeyError msg_undocumented_status)
      | Inr (Some verdict) \<Rightarrow>
     if verdict = [] then Inl (KeyError msg_undocumented_status) else
     (case py_getitem homework (ascii ''homework_name'') of
        Inl e \<Rightarrow> Inl e
      | Inr homework_name \<Rightarrow>
          Inr (msg_status_changed @ py_str R homework_name @ [34, 46, 32] @ verdict))))))"

section \<open>main\<close>

text \<open>
  The variables of the loop (\<open>timestamp\<close>, and \<open>last_send['error']\<close> with \<open>None\<close> for
  Python's \<open>None\<close>) and the trace so far.
\<close>

record loop_state =
  timestamp :: json
  last_error :: "pystr option"
  trace :: "event list"

text \<open>The \<open>try\<close> block of one iteration: the state where it ends, and the exception it
  raised, if any.\<close>

definition cycle_try :: "runtime \<Rightarrow> http \<Rightarrow> telegram \<Rightarrow> loop_state \<Rightarrow> loop_state \<times> exn option" where
  "cycle_try R http tg st =
     (case get_api_answer R http (timestamp st) of
        (evs, answer) \<Rightarrow>
     (let st1 = st\<lparr>trace := trace st @ evs\<rparr> in
     (case answer of
        Inl e \<Rightarrow> (st1, Some e)
      | Inr response \<Rightarrow>
     (case check_response R response of
        Inl e \<Rightarrow> (st1, Some e)
      | Inr homework \<Rightarrow>
     (case
        (case homework of
           h # _ \<Rightarrow>
             (case parse_status R h of
                Inl e \<Rightarrow> Inl e
              | Inr homework_status \<Rightarrow>
                  Inr (st1\<lparr>trace := send_message tg homework_status (trace st1)\<rparr>))
         | [] \<Rightarrow>
             (case parse_status R (JList homework) of
                Inl e \<Rightarrow> Inl e
              | Inr homework_status \<Rightarrow> Inr st1))
      of
        Inl e \<Rightarrow> (st1, Some e)
      | Inr st2 \<Rightarrow>
     (case py_getitem response (ascii ''form_date'') of
        Inl e \<Rightarrow> (st2, Some e)
      | Inr v \<Rightarrow> (st2\<lparr>timestamp := v\<rparr>, None)))))))"

text \<open>The \<open>except Exception\<close> handler.\<close>

definition cycle_except :: "runtime \<Rightarrow> telegram \<Rightarrow> exn \<Rightarrow> loop_state \<Rightarrow> loop_state" where
  "cycle_except R tg error st =
     (let message = msg_failure @ exn_str R error
      in if last_error st \<noteq> Some message
         then st\<lparr>trace := send_message tg message (trace st), last_error := Some message\<rparr>
         else st)"

text \<open>One iteration of \<open>while True\<close>: \<open>try\<close>, \<open>except\<close>, \<open>finally\<close>.\<close>

definition cycle :: "runtime \<Rightarrow> http \<Rightarrow> telegram \<Rightarrow> loop_state \<Rightarrow> loop_state" where
  "cycle R http tg st =
     (case cycle_try R http tg st of
        (st1, raised) \<Rightarrow>
          (let st2 = (case raised of None \<Rightarrow> st1 | Some error \<Rightarrow> cycle_except R tg error st1)
           in st2\<lparr>trace := trace st2 @ [Sleep RETRY_PERIOD]\<rparr>))"

text \<open>
  The loop never ends. Its first \<open>n\<close> iterations are determined by what the server
  answers in each of them: \<open>run\<close> takes these answers as a list, one per iteration.
\<close>

fun run :: "runtime \<Rightarrow> telegram \<Rightarrow> http list \<Rightarrow> loop_state \<Rightarrow> loop_state" where
  "run R tg [] st = st"
| "run R tg (http # https) st = run R tg https (cycle R http tg st)"

text \<open>
  \<open>main\<close> up to the loop. The process either ends inside \<open>check_tokens\<close>, or ends with
  the exception that \<open>telegram.Bot(...)\<close> raises (\<open>bot_error\<close>, \<open>None\<close> when it
  returns), or enters the loop with \<open>timestamp = int(time.time())\<close>.
\<close>

datatype process =
    Halted "event list"
  | Crashed "event list" exn
  | Looping loop_state

definition startup :: "config \<Rightarrow> exn option \<Rightarrow> int \<Rightarrow> process" where
  "startup cfg bot_error now =
     (case check_tokens cfg of
        (evs, Exited) \<Rightarrow> Halted evs
      | (evs, Returned v) \<Rightarrow>
          (let evs1 = (if \<not> truthy v then evs @ [Log CRITICAL msg_missing_variables] else evs)
           in case bot_error of
                Some e \<Rightarrow> Crashed evs1 e
              | None \<Rightarrow> Looping \<lparr>timestamp = JInt now, last_error = None, trace = evs1\<rparr>))"

definition main :: "runtime \<Rightarrow> config \<Rightarrow> exn option \<Rightarrow> int \<Rightarrow> telegram \<Rightarrow> http list \<Rightarrow> process" where
  "main R cfg bot_error now tg https =
     (case startup cfg bot_error now of
        Looping st \<Rightarrow> Looping (run R tg https st)
      | p \<Rightarrow> p)"

section \<open>A runtime to evaluate with\<close>

text \<open>
  The theorems hold for every runtime; evaluating the model on a concrete input needs one.
  \<open>cpython\<close> words the interpreter's messages as CPython 3.8 to 3.10 do, and renders
  values as \<open>str\<close> and \<open>repr\<close> do for text whose characters are all printable (it
  escapes quotes and backslashes only).
\<close>

fun decimal :: "nat \<Rightarrow> pystr" where
  "decimal n = (if n < 10 then [48 + n] else decimal (n div 10) @ [48 + n mod 10])"

declare decimal.simps [simp del]

definition int_text :: "int \<Rightarrow> pystr" where
  "int_text i = (if i < 0 then 45 # decimal (nat (- i)) else decimal (nat i))"

definition quoted :: "pystr \<Rightarrow> pystr" where
  "quoted s =
     (let q = (if 39 \<in> set s \<and> 34 \<notin> set s then 34 else 39)
      in [q] @ concat (map (\<lambda>c. if c = q \<or> c = 92 then [92, c] else [c]) s) @ [q])"

fun join :: "pystr \<Rightarrow> pystr list \<Rightarrow> pystr" where
  "join sep [] = []"
| "join sep [x] = x"
| "join sep (x # y # ys) = x @ sep @ join sep (y # ys)"

primrec render :: "json \<Rightarrow> pystr" where
  "render JNull = ascii ''None''"
| "render (JBool b) = (if b then ascii ''True'' else ascii ''False'')"
| "render (JInt i) = int_text i"
| "render (JFloat r) = r"
| "render (JStr s) = quoted s"
| "render (JList xs) = ascii ''['' @ join (ascii '', '') (map render xs) @ ascii '']''"
| "render (JDict kvs) =
     ascii ''{'' @
     join (ascii '', '')
       (map (\<lambda>kv. quoted (fst kv) @ ascii '': '' @ snd kv) (map (map_prod id render) kvs)) @
     ascii ''}''"

definition cpython_message :: "exn \<Rightarrow> pystr" where
  "cpython_message e =
     (case e of
        UnboundLocalError n \<Rightarrow>
          ascii ''local variable '' @ [39] @ n @ [39] @ ascii '' referenced before assignment''
      | NotContainer v \<Rightarrow>
          ascii ''argument of type '' @ [39] @ type_name v @ [39] @ ascii '' is not iterable''
      | NoAttribute v a \<Rightarrow>
          [39] @ type_name v @ [39] @ ascii '' object has no attribute '' @ [39] @ a @ [39]
      | Unhashable v \<Rightarrow> ascii ''unhashable type: '' @ [39] @ type_name v @ [39]
      | BadSubscript v \<Rightarrow>
          (case v of
             JList _ \<Rightarrow> ascii ''list indices must be integers or slices, not str''
           | JStr _ \<Rightarrow> ascii ''string indices must be integers''
           | _ \<Rightarrow> [39] @ type_name v @ [39] @ ascii '' object is not subscriptable'')
      | _ \<Rightarrow> [])"

definition cpython :: runtime where
  "cpython = \<lparr>str_json = render, repr_str = quoted, builtin_message = cpython_message\<rparr>"

section \<open>Notions the properties are stated with\<close>

definition is_list :: "json \<Rightarrow> bool" where
  "is_list v = (case v of JList _ \<Rightarrow> True | _ \<Rightarrow> False)"

text \<open>Worlds to evaluate with: a server that answers every request with the given status
  and \<open>json()\<close> outcome, one that answers 200 with a body, a transport that raises, and a
  Telegram that delivers every message.\<close>

definition replies :: "int \<Rightarrow> exn + json \<Rightarrow> http" where
  "replies code body =
     (\<lambda>_. Inr \<lparr>status_code = code, request_url = ascii ''https://practicum.yandex.ru/'',
                json_result = body\<rparr>)"

definition serves :: "json \<Rightarrow> http" where
  "serves body = replies 200 (Inr body)"

definition refuses :: "exn \<Rightarrow> http" where
  "refuses e = (\<lambda>_. Inl e)"

definition delivers :: telegram where
  "delivers = (\<lambda>_. True)"

text \<open>The loop's variables as \<open>main\<close> sets them, at time \<open>0\<close> and with nothing logged.\<close>

definition fresh :: loop_state where
  "fresh = \<lparr>timestamp = JInt 0, last_error = None, trace = []\<rparr>"

text \<open>The notifications that are failure messages of the loop's handler.\<close>

definition failure_sends :: "event list \<Rightarrow> pystr list" where
  "failure_sends tr = filter (prefix msg_failure) (sends tr)"

text \<open>Calls that leave the machine: GET requests and Telegram sends.\<close>

fun network_calls :: "event list \<Rightarrow> nat" where
  "network_calls [] = 0"
| "network_calls (HttpGet _ # es) = Suc (network_calls es)"
| "network_calls (TgSend _ # es) = Suc (network_calls es)"
| "network_calls (_ # es) = network_calls es"

text \<open>Every iteration of a run ends without an exception.\<close>

fun all_succeed :: "runtime \<Rightarrow> telegram \<Rightarrow> http list \<Rightarrow> loop_state \<Rightarrow> bool" where
  "all_succeed R tg [] st = True"
| "all_succeed R tg (http # https) st =
     (snd (cycle_try R http tg st) = None \<and> all_succeed R tg https (cycle R http tg st))"

text \<open>The diagnostics the specification asks of \<open>check_tokens\<close>: one critical line for
  each missing value, naming it.\<close>

definition missing_diagnostics :: "config \<Rightarrow> event list" where
  "missing_diagnostics cfg =
     (if env_truthy (PRACTICUM_TOKEN cfg) then []
      else [Log CRITICAL (msg_missing_variable @ ascii ''PRACTICUM_TOKEN'')]) @
     (if env_truthy (TELEGRAM_TOKEN cfg) then []
      else [Log CRITICAL (msg_missing_variable @ ascii ''TELEGRAM_TOKEN'')]) @
     (if env_truthy (TELEGRAM_CHAT_ID cfg) then []
      else [Log CRITICAL (msg_missing_variable @ ascii ''TELEGRAM_CHAT_ID'')])"

text \<open>Scenario A of the specification: the response, and the notification text it asks for
  (\<open>"hw1"\<close> between the Russian sentences of \<open>parse_status\<close> and of the verdict).\<close>

definition scenario_A_response :: json where
  "scenario_A_response =
     JDict
       [(ascii ''homeworks'',
         JList
           [JDict
              [(ascii ''homework_name'', JStr (ascii ''hw1'')),
               (ascii ''status'', JStr (ascii ''approved''))]]),
        (ascii ''form_date'', JInt 1000)]"

definition scenario_A_text :: pystr where
  "scenario_A_text =
     [1048, 1079, 1084, 1077, 1085, 1080, 1083, 1089, 1103, 32, 1089, 1090, 1072, 1090, 1091,
      1089, 32, 1087, 1088, 1086, 1074, 1077, 1088, 1082, 1080, 32, 1088, 1072, 1073, 1086,
      1090, 1099, 32, 34, 104, 119, 49, 34, 46, 32, 1056, 1072, 1073, 1086, 1090, 1072, 32,
      1087, 1088, 1086, 1074, 1077, 1088, 1077, 1085, 1072, 58, 32, 1088, 1077, 1074, 1100,
      1102, 1077, 1088, 1091, 32, 1074, 1089, 1105, 32, 1087, 1086, 1085, 1088, 1072, 1074,
      1080, 1083, 1086, 1089, 1100, 46, 32, 1059, 1088, 1072, 33]"

text \<open>Scenario C of the specification, and a response with one approved homework and no
  \<open>form_date\<close>.\<close>

definition scenario_C_response :: json where
  "scenario_C_response = JDict [(ascii ''homeworks'', JList []), (ascii ''form_date'', JInt 3000)]"

definition response_without_cursor :: json where
  "response_without_cursor =
     JDict
       [(ascii ''homeworks'',
         JList
           [JDict
              [(ascii ''homework_name'', JStr (ascii ''hw1'')),
               (ascii ''status'', JStr (ascii ''approved''))]])]"

section \<open>Auxiliary facts\<close>

lemma sends_append: "sends (xs @ ys) = sends xs @ sends ys"
  by (induction xs rule: sends.induct) simp_all

lemma verdict_nonempty:
  "verdict_approved \<noteq> []" "verdict_reviewing \<noteq> []" "verdict_rejected \<noteq> []"
  by (simp_all add: verdict_approved_def verdict_reviewing_def verdict_rejected_def)

lemma codes_distinct:
  "ascii ''approved'' \<noteq> ascii ''reviewing''" "ascii ''approved'' \<noteq> ascii ''rejected''"
  "ascii ''reviewing'' \<noteq> ascii ''rejected''" "ascii ''reviewing'' \<noteq> ascii ''approved''"
  "ascii ''rejected'' \<noteq> ascii ''approved''" "ascii ''rejected'' \<noteq> ascii ''reviewing''"
  by (simp_all add: ascii_def)

lemma keys_distinct:
  "ascii ''homework_name'' \<noteq> ascii ''status''" "ascii ''status'' \<noteq> ascii ''homework_name''"
  "ascii ''homeworks'' \<noteq> ascii ''form_date''" "ascii ''form_date'' \<noteq> ascii ''homeworks''"
  by (simp_all add: ascii_def)

lemma verdicts_get_code:
  "verdicts_get (JStr (ascii ''approved'')) = Inr (Some verdict_approved)"
  "verdicts_get (JStr (ascii ''reviewing'')) = Inr (Some verdict_reviewing)"
  "verdicts_get (JStr (ascii ''rejected'')) = Inr (Some verdict_rejected)"
  by (simp_all add: verdicts_get_def hashable_def HOMEWORK_VERDICTS_def codes_distinct)

lemma verdicts_get_other:
  "hashable s \<Longrightarrow> s \<noteq> JStr (ascii ''approved'') \<Longrightarrow> s \<noteq> JStr (ascii ''reviewing'') \<Longrightarrow>
   s \<noteq> JStr (ascii ''rejected'') \<Longrightarrow> verdicts_get s = Inr None"
  by (cases s) (simp_all add: verdicts_get_def HOMEWORK_VERDICTS_def)

lemma verdicts_get_unhashable: "\<not> hashable s \<Longrightarrow> verdicts_get s = Inl (Unhashable s)"
  by (simp add: verdicts_get_def)

lemma verdicts_get_Some: "verdicts_get s = Inr (Some v) \<Longrightarrow> v \<noteq> []"
  by (cases s) (auto simp: verdicts_get_def HOMEWORK_VERDICTS_def verdict_nonempty split: if_splits)

lemma parse_status_dict:
  "parse_status R (JDict kvs) =
     (case map_of kvs (ascii ''homework_name'') of
        None \<Rightarrow> Inl (KeyError msg_no_homework_name)
      | Some n \<Rightarrow>
          (case map_of kvs (ascii ''status'') of
             None \<Rightarrow> Inl (KeyError msg_no_status)
           | Some s \<Rightarrow>
               (case verdicts_get s of
                  Inl e \<Rightarrow> Inl e
                | Inr None \<Rightarrow> Inl (KeyError msg_undocumented_status)
                | Inr (Some v) \<Rightarrow> Inr (msg_status_changed @ py_str R n @ [34, 46, 32] @ v))))"
  by (auto simp: parse_status_def py_contains_def py_get_def py_getitem_def
      dest: verdicts_get_Some split: option.splits sum.splits)

lemma parse_status_empty_list: "parse_status R (JList []) = Inl (KeyError msg_no_homework_name)"
  by (simp add: parse_status_def py_contains_def)

lemma parse_status_prefix: "parse_status R h = Inr m \<Longrightarrow> \<exists>rest. m = msg_status_changed @ rest"
  by (auto simp: parse_status_def split: sum.splits option.splits if_splits)

lemma status_not_failure: "\<not> prefix msg_failure (msg_status_changed @ rest)"
  by (simp add: msg_failure_def msg_status_changed_def)

lemma messages_distinct:
  "msg_no_homework_name \<noteq> msg_no_status" "msg_no_homework_name \<noteq> msg_undocumented_status"
  "msg_no_status \<noteq> msg_undocumented_status"
  by (simp_all add: msg_no_homework_name_def msg_no_status_def msg_undocumented_status_def)

lemma get_api_answer_sends: "sends (fst (get_api_answer R http ts)) = []"
  by (auto simp: get_api_answer_def get_api_answer_try_def split: sum.splits option.splits)

lemma failure_sends_append: "failure_sends (xs @ ys) = failure_sends xs @ failure_sends ys"
  by (simp add: failure_sends_def sends_append)

lemma failure_sends_send_status:
  "parse_status R h = Inr m \<Longrightarrow> failure_sends (send_message tg m tr) = failure_sends tr"
  using parse_status_prefix [of R h m] status_not_failure
  by (auto simp: failure_sends_def send_message_def sends_append)

lemma failure_sends_send_failure:
  "failure_sends (send_message tg (msg_failure @ x) tr) = failure_sends tr @ [msg_failure @ x]"
  by (simp add: failure_sends_def send_message_def sends_append)

lemma failure_sends_sleep: "failure_sends [Sleep n] = []"
  by (simp add: failure_sends_def)

lemma get_api_answer_200:
  "http ts = Inr r \<Longrightarrow> status_code r = 200 \<Longrightarrow> json_result r = Inr body \<Longrightarrow>
   snd (get_api_answer R http ts) = Inr body"
  by (simp add: get_api_answer_def get_api_answer_try_def split: sum.splits)

lemma cycle_try_keeps:
  assumes "cycle_try R h tg s = (a, r)"
  shows "last_error a = last_error s \<and> failure_sends (trace a) = failure_sends (trace s)"
proof (cases "get_api_answer R h (timestamp s)")
  case (Pair evs answer)
  have "sends evs = []"
    using get_api_answer_sends [of R h "timestamp s"] Pair by simp
  then have evs: "failure_sends evs = []"
    by (simp add: failure_sends_def)
  show ?thesis
    using assms Pair evs
    by (auto simp: cycle_try_def Let_def failure_sends_append failure_sends_send_status
        split: sum.splits list.splits)
qed

lemma cycle_success_effect:
  assumes "snd (cycle_try R h tg s) = None"
  shows "last_error (cycle R h tg s) = last_error s \<and>
         failure_sends (trace (cycle R h tg s)) = failure_sends (trace s)"
proof (cases "cycle_try R h tg s")
  case (Pair a r)
  with assms have r: "r = None" by simp
  from cycle_try_keeps [OF Pair] show ?thesis
    using Pair r by (simp add: cycle_def failure_sends_append failure_sends_sleep)
qed

lemma cycle_failure_effect:
  assumes "snd (cycle_try R h tg s) = Some e"
  shows "last_error (cycle R h tg s) = Some (msg_failure @ exn_str R e) \<and>
         failure_sends (trace (cycle R h tg s)) =
           failure_sends (trace s) @
           (if last_error s = Some (msg_failure @ exn_str R e) then []
            else [msg_failure @ exn_str R e])"
proof (cases "cycle_try R h tg s")
  case (Pair a r)
  with assms have r: "r = Some e" by simp
  from cycle_try_keeps [OF Pair] show ?thesis
    using Pair r
    by (simp add: cycle_def cycle_except_def Let_def failure_sends_append
        failure_sends_send_failure failure_sends_sleep)
qed

lemma run_all_succeed:
  "all_succeed R tg https st \<Longrightarrow>
   last_error (run R tg https st) = last_error st \<and>
   failure_sends (trace (run R tg https st)) = failure_sends (trace st)"
proof (induction https arbitrary: st)
  case Nil
  then show ?case by simp
next
  case (Cons h https)
  then have h: "snd (cycle_try R h tg st) = None"
    and rest: "all_succeed R tg https (cycle R h tg st)"
    by simp_all
  from Cons.IH [OF rest] cycle_success_effect [OF h] show ?case
    by simp
qed

lemma text_A: "msg_status_changed @ ascii ''hw1'' @ [34, 46, 32] @ verdict_approved = scenario_A_text"
  by (simp add: msg_status_changed_def verdict_approved_def scenario_A_text_def ascii_def)

lemma upt_3: "[0 ..< length [a, b, c]] = [0, Suc 0, Suc (Suc 0)]"
  by (simp add: upt_rec)

lemma check_tokens_missing:
  "\<not> (env_truthy (PRACTICUM_TOKEN cfg) \<and> env_truthy (TELEGRAM_TOKEN cfg) \<and>
       env_truthy (TELEGRAM_CHAT_ID cfg)) \<Longrightarrow>
   check_tokens cfg = (missing_diagnostics cfg, Exited)"
  unfolding check_tokens_def Let_def upt_3
  by (auto simp: missing_diagnostics_def)

lemma check_tokens_present:
  "env_truthy (PRACTICUM_TOKEN cfg) \<and> env_truthy (TELEGRAM_TOKEN cfg) \<and>
   env_truthy (TELEGRAM_CHAT_ID cfg) \<Longrightarrow>
   check_tokens cfg = ([Log DEBUG msg_tokens_ok], Returned JNull)"
  by (simp add: check_tokens_def)

lemma missing_diagnostics_local: "network_calls (missing_diagnostics cfg) = 0"
  by (simp add: missing_diagnostics_def)

lemma parse_status_hw1:
  "parse_status R
     (JDict [(ascii ''homework_name'', JStr (ascii ''hw1'')),
             (ascii ''status'', JStr (ascii ''approved''))]) = Inr scenario_A_text"
  unfolding text_A [symmetric]
  by (simp add: parse_status_dict keys_distinct verdicts_get_code py_str_def)

lemma serves_answer: "snd (get_api_answer R (serves body) ts) = Inr body"
  by (simp add: get_api_answer_def get_api_answer_try_def serves_def replies_def
      split: sum.splits)

lemma check_response_wrong_type:
  "\<not> is_dict body \<Longrightarrow>
   check_response R body = Inl (TypeError (msg_wrong_type @ class_text body))"
  by (cases body) (simp_all add: check_response_def is_dict_def)

lemma cycle_try_rejected:
  assumes "snd (get_api_answer R h (timestamp st)) = Inr body"
    and "check_response R body = Inl e"
  shows "cycle_try R h tg st =
           (st\<lparr>trace := trace st @ fst (get_api_answer R h (timestamp st))\<rparr>, Some e)"
  using assms by (cases "get_api_answer R h (timestamp st)") (simp add: cycle_try_def)

lemma cycle_failure_sends:
  assumes "cycle_try R h tg s = (a, Some e)"
  shows "sends (trace (cycle R h tg s)) =
           sends (trace a) @
           (if last_error s = Some (msg_failure @ exn_str R e) then []
            else [msg_failure @ exn_str R e]) \<and>
         last_error (cycle R h tg s) = Some (msg_failure @ exn_str R e) \<and>
         timestamp (cycle R h tg s) = timestamp a"
proof -
  from cycle_try_keeps [OF assms] have "last_error a = last_error s"
    by simp
  then show ?thesis
    using assms
    by (simp add: cycle_def cycle_except_def Let_def sends_append send_message_def)
qed

lemma cycle_wrong_type:
  assumes "\<not> is_dict body"
  shows "snd (cycle_try R (serves body) tg st) =
           Some (TypeError (msg_wrong_type @ class_text body)) \<and>
         last_error (cycle R (serves body) tg st) =
           Some (msg_failure @ msg_wrong_type @ class_text body) \<and>
         sends (trace (cycle R (serves body) tg st)) =
           sends (trace st) @
           (if last_error st = Some (msg_failure @ msg_wrong_type @ class_text body) then []
            else [msg_failure @ msg_wrong_type @ class_text body])"
proof -
  have t: "cycle_try R (serves body) tg st =
      (st\<lparr>trace := trace st @ fst (get_api_answer R (serves body) (timestamp st))\<rparr>,
       Some (TypeError (msg_wrong_type @ class_text body)))"
    using serves_answer check_response_wrong_type [OF assms] by (rule cycle_try_rejected)
  from cycle_failure_sends [OF t] t show ?thesis
    by (simp add: exn_str_def sends_append get_api_answer_sends)
qed

lemma cycle_empty_homeworks:
  assumes "http (timestamp st) = Inr r" and "status_code r = 200"
    and "json_result r = Inr (JDict kvs)"
    and "map_of kvs (ascii ''homeworks'') = Some (JList [])"
  shows "snd (cycle_try R http tg st) = Some (KeyError msg_no_homework_name) \<and>
         timestamp (cycle R http tg st) = timestamp st \<and>
         last_error (cycle R http tg st) = Some (msg_failure @ repr_str R msg_no_homework_name) \<and>
         sends (trace (cycle R http tg st)) =
           sends (trace st) @
           (if last_error st = Some (msg_failure @ repr_str R msg_no_homework_name) then []
            else [msg_failure @ repr_str R msg_no_homework_name])"
proof -
  obtain evs answer where g: "get_api_answer R http (timestamp st) = (evs, answer)"
    by (cases "get_api_answer R http (timestamp st)")
  have "snd (get_api_answer R http (timestamp st)) = Inr (JDict kvs)"
    using assms(1) assms(2) assms(3) by (rule get_api_answer_200)
  with g have answer: "answer = Inr (JDict kvs)"
    by simp
  from get_api_answer_sends [of R http "timestamp st"] g have evs: "sends evs = []"
    by simp
  have t: "cycle_try R http tg st =
      (st\<lparr>trace := trace st @ evs\<rparr>, Some (KeyError msg_no_homework_name))"
    using g answer assms(4)
    by (simp add: cycle_try_def check_response_def parse_status_empty_list)
  from cycle_failure_sends [OF t] t evs show ?thesis
    by (simp add: exn_str_def sends_append)
qed

lemma cycle_scenario_A:
  assumes "http (timestamp st) = Inr r" and "status_code r = 200"
    and "json_result r = Inr scenario_A_response"
  shows "cycle R http tg st =
       st\<lparr>timestamp := JInt 1000,
          trace := trace st @
            [HttpGet (timestamp st), Log DEBUG msg_response_received, TgSend scenario_A_text,
             if tg (length (sends (trace st))) then Log DEBUG msg_sent
             else Log ERROR msg_send_failed,
             Sleep RETRY_PERIOD]\<rparr>"
  using assms
  by (auto simp: cycle_def cycle_try_def get_api_answer_def get_api_answer_try_def
      scenario_A_response_def check_response_def parse_status_hw1 py_contains_def
      py_getitem_def keys_distinct send_message_def sends_append)

lemma cycle_try_scenario_A: "snd (cycle_try R (serves scenario_A_response) tg st) = None"
  by (simp add: cycle_try_def get_api_answer_def get_api_answer_try_def serves_def replies_def
      scenario_A_response_def check_response_def parse_status_hw1 py_contains_def
      py_getitem_def keys_distinct)

lemma cycle_serves_scenario_A:
  "sends (trace (cycle R (serves scenario_A_response) tg st)) = sends (trace st) @ [scenario_A_text]
   \<and> last_error (cycle R (serves scenario_A_response) tg st) = last_error st"
proof -
  have "cycle R (serves scenario_A_response) tg st =
       st\<lparr>timestamp := JInt 1000,
          trace := trace st @
            [HttpGet (timestamp st), Log DEBUG msg_response_received, TgSend scenario_A_text,
             if tg (length (sends (trace st))) then Log DEBUG msg_sent
             else Log ERROR msg_send_failed,
             Sleep RETRY_PERIOD]\<rparr>"
    by (rule cycle_scenario_A
        [where r = "\<lparr>status_code = 200, request_url = ascii ''https://practicum.yandex.ru/'',
                     json_result = Inr scenario_A_response\<rparr>"])
      (simp_all add: serves_def replies_def)
  then show ?thesis
    by (simp add: sends_append)
qed

lemma cycle_without_cursor:
  "snd (cycle_try R (serves response_without_cursor) tg st) = Some (KeyError (ascii ''form_date''))
   \<and> last_error (cycle R (serves response_without_cursor) tg st) =
       Some (msg_failure @ repr_str R (ascii ''form_date''))
   \<and> sends (trace (cycle R (serves response_without_cursor) tg st)) =
       sends (trace st) @ [scenario_A_text] @
       (if last_error st = Some (msg_failure @ repr_str R (ascii ''form_date'')) then []
        else [msg_failure @ repr_str R (ascii ''form_date'')])"
proof -
  obtain evs answer where
    g: "get_api_answer R (serves response_without_cursor) (timestamp st) = (evs, answer)"
    by (cases "get_api_answer R (serves response_without_cursor) (timestamp st)")
  from serves_answer [of R response_without_cursor "timestamp st"] g
  have answer: "answer = Inr response_without_cursor"
    by simp
  from get_api_answer_sends [of R "serves response_without_cursor" "timestamp st"] g
  have evs: "sends evs = []"
    by simp
  have t: "cycle_try R (serves response_without_cursor) tg st =
      (st\<lparr>trace := send_message tg scenario_A_text (trace st @ evs)\<rparr>,
       Some (KeyError (ascii ''form_date'')))"
    using g answer
    by (simp add: cycle_try_def response_without_cursor_def check_response_def
        parse_status_hw1 py_getitem_def keys_distinct)
  from cycle_failure_sends [OF t] t evs show ?thesis
    by (simp add: exn_str_def sends_append send_message_def)
qed

lemma cycle_serves_scenario_C:
  "sends (trace (cycle R (serves scenario_C_response) tg st)) =
     sends (trace st) @
     (if last_error st = Some (msg_failure @ repr_str R msg_no_homework_name) then []
      else [msg_failure @ repr_str R msg_no_homework_name])
   \<and> last_error (cycle R (serves scenario_C_response) tg st) =
     Some (msg_failure @ repr_str R msg_no_homework_name)"
  using cycle_empty_homeworks [of "serves scenario_C_response" st
      "\<lparr>status_code = 200, request_url = ascii ''https://practicum.yandex.ru/'',
        json_result = Inr scenario_C_response\<rparr>"
      "[(ascii ''homeworks'', JList []), (ascii ''form_date'', JInt 3000)]" R tg]
  by (simp add: serves_def replies_def scenario_C_response_def)

lemma class_text_int_list: "class_text (JInt 5) \<noteq> class_text (JList [])"
  by (simp add: class_text_def type_name_def ascii_def)

lemma wrong_type_distinct:
  "msg_failure @ msg_wrong_type @ class_text (JInt 5) \<noteq>
   msg_failure @ msg_wrong_type @ class_text (JList [])"
  by (simp add: class_text_int_list)

section \<open>The properties\<close>

subsection \<open>get_api_answer on a failed request\<close>

text \<open>
  Claim C1, as the code has it. When the GET raises, or the status is not 200, the handlers
  of \<open>get_api_answer\<close> log the error (one line at error level) and do not re-raise it.
  The function does not return after that: \<open>response_data\<close> was never bound, so
  \<open>return response_data\<close> raises \<open>UnboundLocalError\<close>, and that exception is what the
  \<open>try\<close> block of the main loop ends with. No value, stale or otherwise, reaches the
  caller.
\<close>

theorem get_api_answer_failure_raises:
  "(http ts = Inl e \<longrightarrow>
      get_api_answer R http ts =
        ([HttpGet ts,
          Log ERROR ((if is_RequestException e then msg_request_error else msg_error_occurred)
                     @ exn_str R e)],
         Inl (UnboundLocalError (ascii ''response_data''))))
   \<and> (http ts = Inr r \<and> status_code r \<noteq> 200 \<longrightarrow>
      get_api_answer R http ts =
        ([HttpGet ts, Log ERROR (msg_error_occurred @ msg_url_failure @ request_url r)],
         Inl (UnboundLocalError (ascii ''response_data''))))
   \<and> (http (timestamp st) = Inl e \<or> (http (timestamp st) = Inr r \<and> status_code r \<noteq> 200) \<longrightarrow>
      snd (cycle_try R http tg st) = Some (UnboundLocalError (ascii ''response_data'')))"
  by (auto simp: get_api_answer_def get_api_answer_try_def cycle_try_def exn_str_def
      is_RequestException_def)

theorem get_api_answer_failure_raises_witness:
  "get_api_answer cpython (refuses (RequestException (ascii ''timed out''))) (JInt 0) =
     ([HttpGet (JInt 0), Log ERROR (msg_request_error @ ascii ''timed out'')],
      Inl (UnboundLocalError (ascii ''response_data'')))
   \<and> get_api_answer cpython (replies 503 (Inr JNull)) (JInt 0) =
     ([HttpGet (JInt 0),
       Log ERROR (msg_error_occurred @ msg_url_failure @ ascii ''https://practicum.yandex.ru/'')],
      Inl (UnboundLocalError (ascii ''response_data'')))
   \<and> snd (cycle_try cpython (replies 503 (Inr JNull)) delivers fresh) =
     Some (UnboundLocalError (ascii ''response_data''))"
  using get_api_answer_failure_raises
      [where http = "refuses (RequestException (ascii ''timed out''))" and ts = "JInt 0"
      and e = "RequestException (ascii ''timed out'')" and R = cpython]
    get_api_answer_failure_raises
      [where http = "replies 503 (Inr JNull)" and ts = "JInt 0" and st = fresh
      and tg = delivers and R = cpython
      and r = "\<lparr>status_code = 503, request_url = ascii ''https://practicum.yandex.ru/'',
                json_result = Inr JNull\<rparr>"]
  by (simp add: refuses_def replies_def fresh_def is_RequestException_def exn_str_def)

text \<open>
  The claim as it was stated (the function still returns) fails on a timed-out GET: the
  call ends in \<open>UnboundLocalError\<close>, the loop's \<open>try\<close> block ends with it,
      and the
  loop sends its failure message.
\<close>

theorem get_api_answer_returns_counterexample:
  "snd (get_api_answer cpython (refuses (RequestException (ascii ''timed out''))) (JInt 0)) =
     Inl (UnboundLocalError (ascii ''response_data''))
   \<and> snd (cycle_try cpython (refuses (RequestException (ascii ''timed out''))) delivers fresh) =
     Some (UnboundLocalError (ascii ''response_data''))
   \<and> sends (trace (cycle cpython (refuses (RequestException (ascii ''timed out''))) delivers fresh)) =
     [msg_failure @ builtin_message cpython (UnboundLocalError (ascii ''response_data''))]"
  by (simp add: get_api_answer_def get_api_answer_try_def refuses_def cycle_def cycle_try_def
      cycle_except_def Let_def fresh_def exn_str_def send_message_def delivers_def
      is_RequestException_def)

subsection \<open>Scenario A\<close>

text \<open>
  Claim C2. In one iteration of the loop, from any state, where the GET answers 200 and the
  body decodes to the response of scenario A: exactly one notification is sent, its text is
  the text the specification gives, and the cursor is \<open>1000\<close> afterwards. The theorem
  gives the whole state after the iteration.
\<close>

theorem scenario_A_cycle:
  "http (timestamp st) = Inr r \<and> status_code r = 200 \<and> json_result r = Inr scenario_A_response \<longrightarrow>
     cycle R http tg st =
       st\<lparr>timestamp := JInt 1000,
          trace := trace st @
            [HttpGet (timestamp st), Log DEBUG msg_response_received, TgSend scenario_A_text,
             if tg (length (sends (trace st))) then Log DEBUG msg_sent
             else Log ERROR msg_send_failed,
             Sleep RETRY_PERIOD]\<rparr>
     \<and> sends (trace (cycle R http tg st)) = sends (trace st) @ [scenario_A_text]
     \<and> timestamp (cycle R http tg st) = JInt 1000"
proof (intro impI, elim conjE)
  assume "http (timestamp st) = Inr r" "status_code r = 200"
    "json_result r = Inr scenario_A_response"
  then have "cycle R http tg st =
       st\<lparr>timestamp := JInt 1000,
          trace := trace st @
            [HttpGet (timestamp st), Log DEBUG msg_response_received, TgSend scenario_A_text,
             if tg (length (sends (trace st))) then Log DEBUG msg_sent
             else Log ERROR msg_send_failed,
             Sleep RETRY_PERIOD]\<rparr>"
    by (rule cycle_scenario_A)
  then show "cycle R http tg st =
       st\<lparr>timestamp := JInt 1000,
          trace := trace st @
            [HttpGet (timestamp st), Log DEBUG msg_response_received, TgSend scenario_A_text,
             if tg (length (sends (trace st))) then Log DEBUG msg_sent
             else Log ERROR msg_send_failed,
             Sleep RETRY_PERIOD]\<rparr>
     \<and> sends (trace (cycle R http tg st)) = sends (trace st) @ [scenario_A_text]
     \<and> timestamp (cycle R http tg st) = JInt 1000"
    by (simp add: sends_append)
qed

theorem scenario_A_cycle_witness:
  "cycle cpython (serves scenario_A_response) delivers fresh =
     \<lparr>timestamp = JInt 1000, last_error = None,
      trace = [HttpGet (JInt 0), Log DEBUG msg_response_received, TgSend scenario_A_text,
               Log DEBUG msg_sent, Sleep RETRY_PERIOD]\<rparr>
   \<and> sends (trace (cycle cpython (serves scenario_A_response) delivers fresh)) = [scenario_A_text]
   \<and> timestamp (cycle cpython (serves scenario_A_response) delivers fresh) = JInt 1000"
  using scenario_A_cycle
      [where http = "serves scenario_A_response" and st = fresh and tg = delivers
      and R = cpython
      and r = "\<lparr>status_code = 200, request_url = ascii ''https://practicum.yandex.ru/'',
                json_result = Inr scenario_A_response\<rparr>"]
  by (simp add: serves_def replies_def fresh_def delivers_def)

subsection \<open>parse_status on a record\<close>

text \<open>
  Claim C3, as the code has it. For a record (a dict): without \<open>homework_name\<close>,
  \<open>parse_status\<close> raises the \<open>KeyError\<close> for the name; without \<open>status\<close> it raises
  a missing-key \<open>KeyError\<close> (the one for the name when that is missing too, the one for
  the status otherwise); the two messages differ from each other and from the message for
  an undocumented status. With both keys, a status that is hashable (a string, a number,
  a boolean or \<open>None\<close>) and is not one of \<open>approved\<close>, \<open>reviewing\<close>, \<open>rejected\<close>
  raises the \<open>KeyError\<close> for an undocumented status; each of the three codes returns
  the message made of the fixed opening, the name as \<open>str\<close> prints it (a \<open>str\<close> name
  is printed as it is), a double quote, a full stop, a space and the verdict of \<open>HOMEWORK_VERDICTS\<close>. A status that is
  a list or a dict is left out: the lookup in \<open>HOMEWORK_VERDICTS\<close> cannot hash it.
\<close>

theorem parse_status_record:
  "(map_of kvs (ascii ''homework_name'') = None \<longrightarrow>
      parse_status R (JDict kvs) = Inl (KeyError msg_no_homework_name))
   \<and> (map_of kvs (ascii ''status'') = None \<longrightarrow>
      parse_status R (JDict kvs) =
        Inl (KeyError (if map_of kvs (ascii ''homework_name'') = None
                       then msg_no_homework_name else msg_no_status)))
   \<and> msg_no_homework_name \<noteq> msg_no_status
   \<and> msg_no_homework_name \<noteq> msg_undocumented_status
   \<and> msg_no_status \<noteq> msg_undocumented_status
   \<and> (map_of kvs (ascii ''homework_name'') = Some n \<and> map_of kvs (ascii ''status'') = Some s \<and>
      hashable s \<and> s \<noteq> JStr (ascii ''approved'') \<and> s \<noteq> JStr (ascii ''reviewing'') \<and>
      s \<noteq> JStr (ascii ''rejected'') \<longrightarrow>
      parse_status R (JDict kvs) = Inl (KeyError msg_undocumented_status))
   \<and> (map_of kvs (ascii ''homework_name'') = Some n \<and>
      map_of kvs (ascii ''status'') = Some (JStr (ascii ''approved'')) \<longrightarrow>
      parse_status R (JDict kvs) =
        Inr (msg_status_changed @ py_str R n @ [34, 46, 32] @ verdict_approved))
   \<and> (map_of kvs (ascii ''homework_name'') = Some n \<and>
      map_of kvs (ascii ''status'') = Some (JStr (ascii ''reviewing'')) \<longrightarrow>
      parse_status R (JDict kvs) =
        Inr (msg_status_changed @ py_str R n @ [34, 46, 32] @ verdict_reviewing))
   \<and> (map_of kvs (ascii ''homework_name'') = Some n \<and>
      map_of kvs (ascii ''status'') = Some (JStr (ascii ''rejected'')) \<longrightarrow>
      parse_status R (JDict kvs) =
        Inr (msg_status_changed @ py_str R n @ [34, 46, 32] @ verdict_rejected))
   \<and> py_str R (JStr name) = name"
  by (auto simp: parse_status_dict verdicts_get_code verdicts_get_other messages_distinct
      py_str_def split: option.splits)

theorem parse_status_record_witness:
  "parse_status cpython (JDict [(ascii ''status'', JStr (ascii ''approved''))]) =
     Inl (KeyError msg_no_homework_name)
   \<and> parse_status cpython (JDict [(ascii ''homework_name'', JStr (ascii ''hw2''))]) =
     Inl (KeyError msg_no_status)
   \<and> parse_status cpython
       (JDict [(ascii ''homework_name'', JStr (ascii ''hw2'')),
               (ascii ''status'', JStr (ascii ''weird''))]) =
     Inl (KeyError msg_undocumented_status)
   \<and> parse_status cpython
       (JDict [(ascii ''homework_name'', JStr (ascii ''hw2'')),
               (ascii ''status'', JStr (ascii ''approved''))]) =
     Inr (msg_status_changed @ ascii ''hw2'' @ [34, 46, 32] @ verdict_approved)
   \<and> parse_status cpython
       (JDict [(ascii ''homework_name'', JStr (ascii ''hw2'')),
               (ascii ''status'', JStr (ascii ''reviewing''))]) =
     Inr (msg_status_changed @ ascii ''hw2'' @ [34, 46, 32] @ verdict_reviewing)
   \<and> parse_status cpython
       (JDict [(ascii ''homework_name'', JStr (ascii ''hw2'')),
               (ascii ''status'', JStr (ascii ''rejected''))]) =
     Inr (msg_status_changed @ ascii ''hw2'' @ [34, 46, 32] @ verdict_rejected)"
  using
    parse_status_record
      [where R = cpython and kvs = "[(ascii ''status'', JStr (ascii ''approved''))]"]
    parse_status_record
      [where R = cpython and kvs = "[(ascii ''homework_name'', JStr (ascii ''hw2''))]"]
    parse_status_record
      [where R = cpython and n = "JStr (ascii ''hw2'')" and s = "JStr (ascii ''weird'')"
      and kvs = "[(ascii ''homework_name'', JStr (ascii ''hw2'')),
                  (ascii ''status'', JStr (ascii ''weird''))]"]
    parse_status_record
      [where R = cpython and n = "JStr (ascii ''hw2'')" and name = "ascii ''hw2''"
      and kvs = "[(ascii ''homework_name'', JStr (ascii ''hw2'')),
                  (ascii ''status'', JStr (ascii ''approved''))]"]
    parse_status_record
      [where R = cpython and n = "JStr (ascii ''hw2'')" and name = "ascii ''hw2''"
      and kvs = "[(ascii ''homework_name'', JStr (ascii ''hw2'')),
                  (ascii ''status'', JStr (ascii ''reviewing''))]"]
    parse_status_record
      [where R = cpython and n = "JStr (ascii ''hw2'')" and name = "ascii ''hw2''"
      and kvs = "[(ascii ''homework_name'', JStr (ascii ''hw2'')),
                  (ascii ''status'', JStr (ascii ''rejected''))]"]
  by (simp add: keys_distinct hashable_def ascii_def)

text \<open>
  The claim as it was stated (every status outside the three codes gives the error for an
  undocumented status) fails on a record whose status is a list: the lookup raises the
  interpreter's \<open>TypeError\<close> for an unhashable key.
\<close>

theorem parse_status_unhashable_counterexample:
  "parse_status cpython
     (JDict [(ascii ''homework_name'', JStr (ascii ''hw1'')), (ascii ''status'', JList [])]) =
   Inl (Unhashable (JList []))
   \<and> parse_status cpython
       (JDict [(ascii ''homework_name'', JStr (ascii ''hw1'')), (ascii ''status'', JList [])]) \<noteq>
     Inl (KeyError msg_undocumented_status)"
  by (simp add: parse_status_dict keys_distinct verdicts_get_unhashable hashable_def)

subsection \<open>check_response\<close>

text \<open>
  Claim C4. \<open>check_response\<close> raises a \<open>TypeError\<close> for every value that is not a dict, a
  \<open>KeyError\<close> for every dict without the key \<open>homeworks\<close>, a \<open>TypeError\<close> for every
  dict whose \<open>homeworks\<close> value is not a list, and returns the list (the empty one too)
  for every dict whose \<open>homeworks\<close> value is a list.
\<close>

theorem check_response_cases: 
  "(\<not> is_dict response \<longrightarrow>
      check_response R response = Inl (TypeError (msg_wrong_type @ class_text response)))
   \<and> (map_of kvs (ascii ''homeworks'') = None \<longrightarrow>
      check_response R (JDict kvs) = Inl (KeyError (msg_no_homeworks_key @ py_str R (JDict kvs))))
   \<and> (map_of kvs (ascii ''homeworks'') = Some v \<and> \<not> is_list v \<longrightarrow>
      check_response R (JDict kvs) = Inl (TypeError msg_not_a_list))
   \<and> (map_of kvs (ascii ''homeworks'') = Some (JList homework) \<longrightarrow>
      check_response R (JDict kvs) = Inr homework)"
  by (auto simp: check_response_def is_dict_def is_list_def split: json.splits option.splits)

theorem check_response_cases_witness:
  "check_response cpython (JInt 5) = Inl (TypeError (msg_wrong_type @ class_text (JInt 5)))
   \<and> check_response cpython (JDict [(ascii ''form_date'', JInt 1)]) =
       Inl (KeyError (msg_no_homeworks_key @ py_str cpython (JDict [(ascii ''form_date'', JInt 1)])))
   \<and> check_response cpython (JDict [(ascii ''homeworks'', JStr (ascii ''none''))]) =
       Inl (TypeError msg_not_a_list)
   \<and> check_response cpython (JDict [(ascii ''homeworks'', JList [])]) = Inr []"
  using check_response_cases
      [where response = "JInt 5" and R = cpython and kvs = "[(ascii ''form_date'', JInt 1)]"]
        check_response_cases
      [where R = cpython and kvs = "[(ascii ''homeworks'', JStr (ascii ''none''))]" 
               and v = "JStr (ascii ''none'')"]
        check_response_cases
      [where R = cpython and kvs = "[(ascii ''homeworks'', JList [])]" and homework = "[]"]
  by (simp add: is_dict_def is_list_def ascii_def)

subsection \<open>Repeated failures\<close>

text \<open>
  Claim C5, as the code has it. An iteration whose \<open>try\<close> block raises \<open>e\<close> makes the
  failure message \<open>msg_failure @ str(e)\<close>. For two consecutive failing iterations, starting
  where the cache does not already hold the first message: with the same text the failure
  message is sent once, with different texts both are sent, in order; after each of the two
  iterations the cache holds that iteration's message. Only the failure messages are
  counted: an iteration that fails at \<open>response['form_date']\<close> has sent its status
  notification before, and that one is not deduplicated.
\<close>

theorem failure_message_dedup:
  "snd (cycle_try R ha tg st) = Some ea \<and>
   snd (cycle_try R hb tg (cycle R ha tg st)) = Some eb \<and>
   last_error st \<noteq> Some (msg_failure @ exn_str R ea) \<longrightarrow>
     failure_sends (trace (cycle R hb tg (cycle R ha tg st))) =
       failure_sends (trace st) @
       (if msg_failure @ exn_str R ea = msg_failure @ exn_str R eb
        then [msg_failure @ exn_str R ea]
        else [msg_failure @ exn_str R ea, msg_failure @ exn_str R eb])
     \<and> last_error (cycle R ha tg st) = Some (msg_failure @ exn_str R ea)
     \<and> last_error (cycle R hb tg (cycle R ha tg st)) = Some (msg_failure @ exn_str R eb)"
proof (intro impI, elim conjE)
  assume 1: "snd (cycle_try R ha tg st) = Some ea"
    and 2: "snd (cycle_try R hb tg (cycle R ha tg st)) = Some eb"
    and 3: "last_error st \<noteq> Some (msg_failure @ exn_str R ea)"
  from cycle_failure_effect [OF 1] cycle_failure_effect [OF 2] 3
  show "failure_sends (trace (cycle R hb tg (cycle R ha tg st))) =
       failure_sends (trace st) @
       (if msg_failure @ exn_str R ea = msg_failure @ exn_str R eb
        then [msg_failure @ exn_str R ea]
        else [msg_failure @ exn_str R ea, msg_failure @ exn_str R eb])
     \<and> last_error (cycle R ha tg st) = Some (msg_failure @ exn_str R ea)
     \<and> last_error (cycle R hb tg (cycle R ha tg st)) = Some (msg_failure @ exn_str R eb)"
    by auto
qed

theorem failure_message_dedup_witness:
  "failure_sends
     (trace (cycle cpython (serves (JInt 5)) delivers (cycle cpython (serves (JInt 5)) delivers fresh))) =
     [msg_failure @ msg_wrong_type @ class_text (JInt 5)]
   \<and> failure_sends
     (trace (cycle cpython (serves (JList [])) delivers
               (cycle cpython (serves (JInt 5)) delivers fresh))) =
     [msg_failure @ msg_wrong_type @ class_text (JInt 5),
      msg_failure @ msg_wrong_type @ class_text (JList [])]
   \<and> last_error (cycle cpython (serves (JInt 5)) delivers fresh) =
     Some (msg_failure @ msg_wrong_type @ class_text (JInt 5))
   \<and> last_error
     (cycle cpython (serves (JList [])) delivers (cycle cpython (serves (JInt 5)) delivers fresh)) =
     Some (msg_failure @ msg_wrong_type @ class_text (JList []))"
  using
    failure_message_dedup
      [where R = cpython and tg = delivers and st = fresh and ha = "serves (JInt 5)"
      and hb = "serves (JInt 5)" and ea = "TypeError (msg_wrong_type @ class_text (JInt 5))"
      and eb = "TypeError (msg_wrong_type @ class_text (JInt 5))"]
    failure_message_dedup
      [where R = cpython and tg = delivers and st = fresh and ha = "serves (JInt 5)"
      and hb = "serves (JList [])" and ea = "TypeError (msg_wrong_type @ class_text (JInt 5))"
      and eb = "TypeError (msg_wrong_type @ class_text (JList []))"]
    cycle_wrong_type [of "JInt 5" cpython delivers]
    cycle_wrong_type [of "JList []" cpython delivers]
    class_text_int_list
  by (simp add: is_dict_def exn_str_def fresh_def failure_sends_def)

text \<open>
  The claim as it was stated (the notifier is invoked exactly once) fails where each
  iteration fetches one approved homework and no \<open>form_date\<close>: every iteration sends
  the status notification and then fails with \<open>KeyError('form_date')\<close>. Over the first
  two iterations the notifier is called three times; over the second and third it is
  called twice, and never with the failure message.
\<close>

theorem notifier_count_counterexample:
  "snd (cycle_try cpython (serves response_without_cursor) delivers fresh) =
     Some (KeyError (ascii ''form_date''))
   \<and> snd (cycle_try cpython (serves response_without_cursor) delivers
          (cycle cpython (serves response_without_cursor) delivers fresh)) =
     Some (KeyError (ascii ''form_date''))
   \<and> sends (trace (run cpython delivers
       [serves response_without_cursor, serves response_without_cursor] fresh)) =
     [scenario_A_text, msg_failure @ repr_str cpython (ascii ''form_date''), scenario_A_text]
   \<and> sends (trace (run cpython delivers
       [serves response_without_cursor, serves response_without_cursor,
        serves response_without_cursor] fresh)) =
     [scenario_A_text, msg_failure @ repr_str cpython (ascii ''form_date''), scenario_A_text,
      scenario_A_text]"
  by (simp add: cycle_without_cursor fresh_def)

subsection \<open>Missing configuration\<close>

text \<open>
  Claim C6. When one of the three values is absent or empty (\<open>env_truthy\<close> is false exactly
  for \<open>None\<close> and for the empty string), \<open>check_tokens\<close> logs one critical line for each
  missing value, naming it, and exits; \<open>main\<close> then halts with these lines as its whole
  trace, whatever the servers would have answered: no GET and no send has happened. When
  all three are present, \<open>check_tokens\<close> logs one debug line and returns.
\<close>

theorem check_tokens_halts:
  "(\<not> (env_truthy (PRACTICUM_TOKEN cfg) \<and> env_truthy (TELEGRAM_TOKEN cfg) \<and>
        env_truthy (TELEGRAM_CHAT_ID cfg)) \<longrightarrow>
      check_tokens cfg = (missing_diagnostics cfg, Exited)
      \<and> main R cfg bot_error now tg https = Halted (missing_diagnostics cfg)
      \<and> network_calls (missing_diagnostics cfg) = 0)
   \<and> (env_truthy (PRACTICUM_TOKEN cfg) \<and> env_truthy (TELEGRAM_TOKEN cfg) \<and>
      env_truthy (TELEGRAM_CHAT_ID cfg) \<longrightarrow>
      check_tokens cfg = ([Log DEBUG msg_tokens_ok], Returned JNull))
   \<and> env_truthy v = (v \<noteq> None \<and> v \<noteq> Some [])"
proof -
  have halts: "main R cfg bot_error now tg https = Halted (missing_diagnostics cfg)"
    if "check_tokens cfg = (missing_diagnostics cfg, Exited)"
    using that by (simp add: main_def startup_def)
  have empty: "env_truthy v = (v \<noteq> None \<and> v \<noteq> Some [])"
    by (cases v) (simp_all add: env_truthy_def)
  from halts empty check_tokens_missing [of cfg] check_tokens_present [of cfg]
    missing_diagnostics_local [of cfg]
  show ?thesis
    by blast
qed

theorem check_tokens_halts_witness:
  "check_tokens
     \<lparr>PRACTICUM_TOKEN = None, TELEGRAM_TOKEN = Some (ascii ''token''), TELEGRAM_CHAT_ID = Some []\<rparr> =
     ([Log CRITICAL (msg_missing_variable @ ascii ''PRACTICUM_TOKEN''),
       Log CRITICAL (msg_missing_variable @ ascii ''TELEGRAM_CHAT_ID'')], Exited)
   \<and> main cpython
       \<lparr>PRACTICUM_TOKEN = None, TELEGRAM_TOKEN = Some (ascii ''token''),
        TELEGRAM_CHAT_ID = Some []\<rparr>
       None 0 delivers [serves scenario_A_response] =
     Halted [Log CRITICAL (msg_missing_variable @ ascii ''PRACTICUM_TOKEN''),
             Log CRITICAL (msg_missing_variable @ ascii ''TELEGRAM_CHAT_ID'')]
   \<and> network_calls [Log CRITICAL (msg_missing_variable @ ascii ''PRACTICUM_TOKEN''),
                     Log CRITICAL (msg_missing_variable @ ascii ''TELEGRAM_CHAT_ID'')] = 0
   \<and> check_tokens
       \<lparr>PRACTICUM_TOKEN = Some (ascii ''key''), TELEGRAM_TOKEN = Some (ascii ''token''),
        TELEGRAM_CHAT_ID = Some (ascii ''42'')\<rparr> =
     ([Log DEBUG msg_tokens_ok], Returned JNull)"
  using
    check_tokens_halts
      [where cfg = "\<lparr>PRACTICUM_TOKEN = None, TELEGRAM_TOKEN = Some (ascii ''token''),
                       TELEGRAM_CHAT_ID = Some []\<rparr>"
      and R = cpython and bot_error = None and now = 0 and tg = delivers
      and https = "[serves scenario_A_response]"]
    check_tokens_halts [where cfg = "\<lparr>PRACTICUM_TOKEN = Some (ascii ''key''),
                       TELEGRAM_TOKEN = Some (ascii ''token''),
                       TELEGRAM_CHAT_ID = Some (ascii ''42'')\<rparr>"]
  by (simp add: env_truthy_def missing_diagnostics_def ascii_def)

subsection \<open>An empty list of homeworks\<close>

text \<open>
  Claim C7, as the code has it. In an iteration where the GET answers 200 and the body is a
  dict whose \<open>homeworks\<close> is the empty list, \<open>parse_status\<close> is called on the empty
  list and raises the \<open>KeyError\<close> for the missing name; the cursor stays; the cache
  holds the failure message afterwards; and the iteration sends that failure message once,
  unless the cache already held it, in which case it sends nothing.
\<close>

theorem empty_homeworks_cycle:
  "http (timestamp st) = Inr r \<and> status_code r = 200 \<and> json_result r = Inr (JDict kvs) \<and>
   map_of kvs (ascii ''homeworks'') = Some (JList []) \<longrightarrow>
     parse_status R (JList []) = Inl (KeyError msg_no_homework_name)
     \<and> snd (cycle_try R http tg st) = Some (KeyError msg_no_homework_name)
     \<and> timestamp (cycle R http tg st) = timestamp st
     \<and> last_error (cycle R http tg st) = Some (msg_failure @ repr_str R msg_no_homework_name)
     \<and> sends (trace (cycle R http tg st)) =
         sends (trace st) @
         (if last_error st = Some (msg_failure @ repr_str R msg_no_homework_name) then []
          else [msg_failure @ repr_str R msg_no_homework_name])"
  using cycle_empty_homeworks [of http st r kvs R tg] parse_status_empty_list [of R]
  by blast

theorem empty_homeworks_cycle_witness:
  "parse_status cpython (JList []) = Inl (KeyError msg_no_homework_name)
   \<and> snd (cycle_try cpython (serves scenario_C_response) delivers fresh) =
       Some (KeyError msg_no_homework_name)
   \<and> timestamp (cycle cpython (serves scenario_C_response) delivers fresh) = JInt 0
   \<and> last_error (cycle cpython (serves scenario_C_response) delivers fresh) =
       Some (msg_failure @ repr_str cpython msg_no_homework_name)
   \<and> sends (trace (cycle cpython (serves scenario_C_response) delivers fresh)) =
       [msg_failure @ repr_str cpython msg_no_homework_name]"
  using empty_homeworks_cycle
      [where http = "serves scenario_C_response" and st = fresh and tg = delivers
      and R = cpython
      and kvs = "[(ascii ''homeworks'', JList []), (ascii ''form_date'', JInt 3000)]"
      and r = "\<lparr>status_code = 200, request_url = ascii ''https://practicum.yandex.ru/'',
                json_result = Inr scenario_C_response\<rparr>"]
  by (simp add: serves_def replies_def fresh_def scenario_C_response_def)

text \<open>
  The claim as it was stated (the failure message is sent exactly once, the iteration is
  not silent) fails where the cache already holds the message: the second of two
  iterations with an empty list sends nothing, and so does an iteration with an empty list
  that comes after a successful one.
\<close>

theorem empty_homeworks_silent_counterexample:
  "sends (trace (run cpython delivers [serves scenario_C_response] fresh)) =
     [msg_failure @ repr_str cpython msg_no_homework_name]
   \<and> sends (trace (run cpython delivers [serves scenario_C_response, serves scenario_C_response]
                      fresh)) =
     sends (trace (run cpython delivers [serves scenario_C_response] fresh))
   \<and> sends (trace (run cpython delivers
        [serves scenario_C_response, serves scenario_A_response, serves scenario_C_response]
        fresh)) =
     sends (trace (run cpython delivers [serves scenario_C_response, serves scenario_A_response]
                     fresh))"
  by (simp add: cycle_serves_scenario_C cycle_serves_scenario_A fresh_def)

subsection \<open>A body without form_date\<close>

text \<open>
  Claim C8, as the code has it. When the GET answers 200 and \<open>json()\<close> decodes the
  body, \<open>get_api_answer\<close> returns the body, whatever it is. When the body is a JSON object
  (a dict) without the key \<open>form_date\<close>, it logs the error for the missing parameter
  (after the debug line) and returns the body all the same. Bodies that are not objects
  are left out of the part about the log: \<open>'form_date' not in response_data\<close> is a
  membership test, not a key lookup, on a list or a string.
\<close>

theorem get_api_answer_missing_cursor:
  "http ts = Inr r \<and> status_code r = 200 \<and> json_result r = Inr body \<longrightarrow>
     snd (get_api_answer R http ts) = Inr body
     \<and> (body = JDict kvs \<and> map_of kvs (ascii ''form_date'') = None \<longrightarrow>
        get_api_answer R http ts =
          ([HttpGet ts, Log DEBUG msg_response_received,
            Log ERROR (msg_error_occurred @ msg_no_form_date)],
           Inr body))"
  by (auto simp: get_api_answer_def get_api_answer_try_def py_contains_def exn_str_def
      is_RequestException_def split: sum.splits)

theorem get_api_answer_missing_cursor_witness:
  "get_api_answer cpython (serves (JDict [(ascii ''homeworks'', JList [])])) (JInt 0) =
     ([HttpGet (JInt 0), Log DEBUG msg_response_received,
       Log ERROR (msg_error_occurred @ msg_no_form_date)],
      Inr (JDict [(ascii ''homeworks'', JList [])]))
   \<and> snd (get_api_answer cpython (serves (JDict [(ascii ''homeworks'', JList [])])) (JInt 0)) =
     Inr (JDict [(ascii ''homeworks'', JList [])])"
  using get_api_answer_missing_cursor
      [where http = "serves (JDict [(ascii ''homeworks'', JList [])])" and ts = "JInt 0"
      and R = cpython and body = "JDict [(ascii ''homeworks'', JList [])]"
      and kvs = "[(ascii ''homeworks'', JList [])]"
      and r = "\<lparr>status_code = 200, request_url = ascii ''https://practicum.yandex.ru/'',
                json_result = Inr (JDict [(ascii ''homeworks'', JList [])])\<rparr>"]
  by (simp add: serves_def replies_def keys_distinct)

text \<open>
  The claim as it was stated (every decoded body that lacks the key is logged as an error)
  fails on a body that is the list \<open>["form_date"]\<close>, and on one that is the string
  \<open>"no form_date here"\<close>: neither is an object with that key, the membership test finds
  the text all the same, nothing is logged beyond the debug line, and the body is returned.
\<close>

theorem get_api_answer_membership_counterexample:
  "\<not> is_dict (JList [JStr (ascii ''form_date'')])
   \<and> get_api_answer cpython (serves (JList [JStr (ascii ''form_date'')])) (JInt 0) =
     ([HttpGet (JInt 0), Log DEBUG msg_response_received],
      Inr (JList [JStr (ascii ''form_date'')]))
   \<and> \<not> is_dict (JStr (ascii ''no form_date here''))
   \<and> get_api_answer cpython (serves (JStr (ascii ''no form_date here''))) (JInt 0) =
     ([HttpGet (JInt 0), Log DEBUG msg_response_received],
      Inr (JStr (ascii ''no form_date here'')))"
  by (simp add: get_api_answer_def get_api_answer_try_def serves_def replies_def
      py_contains_def is_dict_def ascii_def prefix_code)

subsection \<open>What check_tokens returns\<close>

text \<open>
  Claim C9. Whenever \<open>check_tokens\<close> returns, it returns \<open>None\<close>. So with all three
  values present \<open>main\<close> takes the branch \<open>if not check_tokens()\<close> and logs its critical
  line right after the debug line of \<open>check_tokens\<close>, before it builds the bot. With a
  value missing \<open>check_tokens\<close> does not return: the process ends inside it.
\<close>

theorem check_tokens_returns_None:
  "(check_tokens cfg = (evs, Returned v) \<longrightarrow> v = JNull)
   \<and> (env_truthy (PRACTICUM_TOKEN cfg) \<and> env_truthy (TELEGRAM_TOKEN cfg) \<and>
      env_truthy (TELEGRAM_CHAT_ID cfg) \<longrightarrow>
      startup cfg bot_error now =
        (case bot_error of
           None \<Rightarrow>
             Looping \<lparr>timestamp = JInt now, last_error = None,
                      trace = [Log DEBUG msg_tokens_ok, Log CRITICAL msg_missing_variables]\<rparr>
         | Some e \<Rightarrow> Crashed [Log DEBUG msg_tokens_ok, Log CRITICAL msg_missing_variables] e))
   \<and> (\<not> (env_truthy (PRACTICUM_TOKEN cfg) \<and> env_truthy (TELEGRAM_TOKEN cfg) \<and>
        env_truthy (TELEGRAM_CHAT_ID cfg)) \<longrightarrow>
      snd (check_tokens cfg) = Exited \<and>
      startup cfg bot_error now = Halted (fst (check_tokens cfg)))"
proof -
  have none: "v = JNull" if "check_tokens cfg = (evs, Returned v)"
    using that by (simp add: check_tokens_def Let_def split: if_splits)
  have branch: "startup cfg bot_error now =
        (case bot_error of
           None \<Rightarrow>
             Looping \<lparr>timestamp = JInt now, last_error = None,
                      trace = [Log DEBUG msg_tokens_ok, Log CRITICAL msg_missing_variables]\<rparr>
         | Some e \<Rightarrow> Crashed [Log DEBUG msg_tokens_ok, Log CRITICAL msg_missing_variables] e)"
    if "env_truthy (PRACTICUM_TOKEN cfg) \<and> env_truthy (TELEGRAM_TOKEN cfg) \<and>
      env_truthy (TELEGRAM_CHAT_ID cfg)"
    using check_tokens_present [OF that]
    by (simp add: startup_def truthy_def split: option.splits)
  have exits: "snd (check_tokens cfg) = Exited \<and>
      startup cfg bot_error now = Halted (fst (check_tokens cfg))"
    if "\<not> (env_truthy (PRACTICUM_TOKEN cfg) \<and> env_truthy (TELEGRAM_TOKEN cfg) \<and>
        env_truthy (TELEGRAM_CHAT_ID cfg))"
    using check_tokens_missing [OF that] by (simp add: startup_def)
  from none branch exits show ?thesis
    by blast
qed

theorem check_tokens_returns_None_witness:
  "check_tokens
     \<lparr>PRACTICUM_TOKEN = Some (ascii ''key''), TELEGRAM_TOKEN = Some (ascii ''token''),
      TELEGRAM_CHAT_ID = Some (ascii ''42'')\<rparr> = ([Log DEBUG msg_tokens_ok], Returned JNull)
   \<and> startup
       \<lparr>PRACTICUM_TOKEN = Some (ascii ''key''), TELEGRAM_TOKEN = Some (ascii ''token''),
        TELEGRAM_CHAT_ID = Some (ascii ''42'')\<rparr> None 0 =
     Looping \<lparr>timestamp = JInt 0, last_error = None,
              trace = [Log DEBUG msg_tokens_ok, Log CRITICAL msg_missing_variables]\<rparr>
   \<and> snd (check_tokens
       \<lparr>PRACTICUM_TOKEN = Some (ascii ''key''), TELEGRAM_TOKEN = None,
        TELEGRAM_CHAT_ID = Some (ascii ''42'')\<rparr>) = Exited
   \<and> startup
       \<lparr>PRACTICUM_TOKEN = Some (ascii ''key''), TELEGRAM_TOKEN = None,
        TELEGRAM_CHAT_ID = Some (ascii ''42'')\<rparr> None 0 =
     Halted [Log CRITICAL (msg_missing_variable @ ascii ''TELEGRAM_TOKEN'')]"
  using
    check_tokens_returns_None [where cfg = "\<lparr>PRACTICUM_TOKEN = Some (ascii ''key''),
                       TELEGRAM_TOKEN = Some (ascii ''token''),
                       TELEGRAM_CHAT_ID = Some (ascii ''42'')\<rparr>"
      and bot_error = None and now = 0 and evs = "[Log DEBUG msg_tokens_ok]" and v = JNull]
    check_tokens_returns_None
      [where cfg = "\<lparr>PRACTICUM_TOKEN = Some (ascii ''key''), TELEGRAM_TOKEN = None,
                       TELEGRAM_CHAT_ID = Some (ascii ''42'')\<rparr>"
      and bot_error = None and now = 0]
    check_tokens_missing [of "\<lparr>PRACTICUM_TOKEN = Some (ascii ''key''), TELEGRAM_TOKEN = None,
                       TELEGRAM_CHAT_ID = Some (ascii ''42'')\<rparr>"]
    check_tokens_present [of "\<lparr>PRACTICUM_TOKEN = Some (ascii ''key''),
                       TELEGRAM_TOKEN = Some (ascii ''token''),
                       TELEGRAM_CHAT_ID = Some (ascii ''42'')\<rparr>"]
  by (simp add: env_truthy_def missing_diagnostics_def ascii_def)

subsection \<open>The last-error cache\<close>

text \<open>
  Claim C10, as the code has it. An iteration that ends without an exception leaves the
  cache and the failure messages sent as they were. An iteration that changes the cache
  has failed with some \<open>e\<close>, has sent the failure message for \<open>e\<close> and has stored it.
  Hence, while the cache holds \<open>M\<close>: after any number of iterations that end without an
  exception, a failing iteration whose message is \<open>M\<close> sends no failure message and
  leaves \<open>M\<close> in the cache. (A different failure in between replaces the cache, and a
  failing iteration may have sent a status notification before it failed.)
\<close>

theorem last_error_cache:
  "(snd (cycle_try R h tg st) = None \<longrightarrow>
      last_error (cycle R h tg st) = last_error st \<and>
      failure_sends (trace (cycle R h tg st)) = failure_sends (trace st))
   \<and> (last_error (cycle R h tg st) \<noteq> last_error st \<longrightarrow>
      (\<exists>e. snd (cycle_try R h tg st) = Some e \<and>
           last_error (cycle R h tg st) = Some (msg_failure @ exn_str R e) \<and>
           failure_sends (trace (cycle R h tg st)) =
             failure_sends (trace st) @ [msg_failure @ exn_str R e]))
   \<and> (last_error st = Some M \<and> all_succeed R tg https st \<and>
      snd (cycle_try R h' tg (run R tg https st)) = Some e' \<and> msg_failure @ exn_str R e' = M \<longrightarrow>
      failure_sends (trace (cycle R h' tg (run R tg https st))) = failure_sends (trace st) \<and>
      last_error (cycle R h' tg (run R tg https st)) = Some M)"
proof -
  have kept: "last_error (cycle R h tg st) = last_error st \<and>
      failure_sends (trace (cycle R h tg st)) = failure_sends (trace st)"
    if "snd (cycle_try R h tg st) = None"
    using cycle_success_effect [OF that] .
  have changed: "\<exists>e. snd (cycle_try R h tg st) = Some e \<and>
           last_error (cycle R h tg st) = Some (msg_failure @ exn_str R e) \<and>
           failure_sends (trace (cycle R h tg st)) =
             failure_sends (trace st) @ [msg_failure @ exn_str R e]"
    if ch: "last_error (cycle R h tg st) \<noteq> last_error st"
  proof (cases "snd (cycle_try R h tg st)")
    case None
    from cycle_success_effect [OF this] ch show ?thesis by simp
  next
    case (Some e)
    from cycle_failure_effect [OF this] ch Some show ?thesis
      by (auto split: if_splits)
  qed
  have repeated: "failure_sends (trace (cycle R h' tg (run R tg https st))) =
        failure_sends (trace st) \<and>
      last_error (cycle R h' tg (run R tg https st)) = Some M"
    if a: "last_error st = Some M \<and> all_succeed R tg https st \<and>
      snd (cycle_try R h' tg (run R tg https st)) = Some e' \<and> msg_failure @ exn_str R e' = M"
  proof -
    from a have f: "snd (cycle_try R h' tg (run R tg https st)) = Some e'"
      and s: "all_succeed R tg https st" by simp_all
    from cycle_failure_effect [OF f] run_all_succeed [OF s] a show ?thesis
      by simp
  qed
  from kept changed repeated show ?thesis
    by blast
qed

theorem last_error_cache_witness:
  "last_error (cycle cpython (serves scenario_A_response) delivers
      (cycle cpython (serves (JInt 5)) delivers fresh)) =
     last_error (cycle cpython (serves (JInt 5)) delivers fresh)
   \<and> last_error (cycle cpython (serves (JInt 5)) delivers fresh) =
       Some (msg_failure @ msg_wrong_type @ class_text (JInt 5))
   \<and> failure_sends (trace (cycle cpython (serves (JInt 5)) delivers fresh)) =
       [msg_failure @ msg_wrong_type @ class_text (JInt 5)]
   \<and> failure_sends
       (trace (cycle cpython (serves (JInt 5)) delivers
          (run cpython delivers [serves scenario_A_response, serves scenario_A_response]
             (cycle cpython (serves (JInt 5)) delivers fresh)))) =
       [msg_failure @ msg_wrong_type @ class_text (JInt 5)]"
  using
    last_error_cache [where R = cpython and tg = delivers and h = "serves scenario_A_response"
      and st = "cycle cpython (serves (JInt 5)) delivers fresh"
      and h' = "serves (JInt 5)"
      and https = "[serves scenario_A_response, serves scenario_A_response]"
      and M = "msg_failure @ msg_wrong_type @ class_text (JInt 5)"
      and e' = "TypeError (msg_wrong_type @ class_text (JInt 5))"]
    last_error_cache [where R = cpython and tg = delivers and h = "serves (JInt 5)" and st = fresh
      and https = "[]" and h' = "serves (JInt 5)" and M = "[]"]
    cycle_wrong_type [of "JInt 5" cpython delivers]
    cycle_try_scenario_A [of cpython delivers]
  by (simp add: is_dict_def exn_str_def fresh_def failure_sends_def)

text \<open>
  The claim as it was stated (once \<open>M\<close> has been sent, no later failing iteration with
  the message \<open>M\<close> sends a notification) fails in two ways: after a different failure
  in between \<open>M\<close> is sent again, and an iteration that fails at
  \<open>response['form_date']\<close> sends its status notification although its failure message
  is suppressed.
\<close>

theorem last_error_cache_counterexample:
  "sends (trace (run cpython delivers [serves (JInt 5), serves (JList []), serves (JInt 5)] fresh)) =
     [msg_failure @ msg_wrong_type @ class_text (JInt 5),
      msg_failure @ msg_wrong_type @ class_text (JList []),
      msg_failure @ msg_wrong_type @ class_text (JInt 5)]
   \<and> sends (trace (run cpython delivers
       [serves response_without_cursor, serves scenario_A_response,
        serves response_without_cursor] fresh)) =
     [scenario_A_text, msg_failure @ repr_str cpython (ascii ''form_date''), scenario_A_text,
      scenario_A_text]"
  using wrong_type_distinct
  by (simp add: cycle_wrong_type cycle_without_cursor cycle_serves_scenario_A is_dict_def
      fresh_def)

end
